theory Spec2Isabelle
  imports Complex_Main "HOL-Library.Multiset" "HOL-Library.Log_Nat"
begin

section \<open>Data model\<close>

text \<open>
  Modelled from the spec: the declaration of \<open>Transaction\<close> (module \<open>@/types\<close>) is not
  among the sources. Its fields are those of the spec's data model and of the object
  literals of \<open>getAllTransactions\<close>: \<open>id\<close>, \<open>title\<close>, \<open>amount\<close>, \<open>type\<close>, \<open>category\<close>, \<open>date\<close>.
  \<open>Draft\<close> is \<open>Omit<Transaction, 'id'>\<close>; \<open>Transaction\<close> extends it with the identifier.
  The fields \<open>id\<close> and \<open>type\<close> are written \<open>tx_id\<close> and \<open>tx_type\<close>.

  An amount is a JavaScript number, that is an IEEE 754 double (section Numbers). A time
  value is an integer number of milliseconds, or \<open>NaN\<close>, written \<open>None\<close>: the time values
  of calendar dates and their differences are integers that a double holds exactly.
\<close>

section \<open>Numbers\<close>

text \<open>
  Every finite double is an integer multiple of \<open>2^-1074\<close>, the least positive double:
  \<open>Fin k\<close> is the number \<open>k * 2^-1074\<close>. The doubles are the \<open>Fin k\<close> whose magnitude
  \<open>\<bar>k\<bar>\<close> has at most 53 significant bits and lies below \<open>2^2098\<close> (the number \<open>2^1024\<close>),
  the two infinities and \<open>NaN\<close>. The two zeros are one value here: they differ in no
  comparison, and a sum that starts from \<open>0\<close> is never the negative zero.

  The exact sum of two finite doubles is again a multiple of \<open>2^-1074\<close>, and addition
  rounds it to the nearest double, a tie going to the even significand
  (\<open>roundMagnitude\<close>), and to an infinity from \<open>2^1024\<close> on (\<open>roundDouble\<close>).
\<close>

datatype double = NaN | NegInf | Fin int | PosInf

definition roundMagnitude :: "int \<Rightarrow> int" where
  "roundMagnitude a =
    (let b = bitlen a in
     if b \<le> 53 then a
     else
       (let s = nat (b - 53); q = a div 2 ^ s; r = a mod 2 ^ s; h = 2 ^ (s - 1)
        in (if h < r \<or> (r = h \<and> odd q) then q + 1 else q) * 2 ^ s))"

definition overflowBound :: int where
  "overflowBound = 2 ^ 2098"

definition roundDouble :: "int \<Rightarrow> double" where
  "roundDouble k =
    (let m = roundMagnitude \<bar>k\<bar>
     in if overflowBound \<le> m then (if k < 0 then NegInf else PosInf)
        else Fin (if k < 0 then - m else m))"

text \<open>The operators \<open>+\<close>, unary and binary \<open>-\<close>, and the test \<open>x >= 0\<close>.\<close>

fun double_add :: "double \<Rightarrow> double \<Rightarrow> double" where
  "double_add (Fin a) (Fin b) = roundDouble (a + b)"
| "double_add NaN y = NaN"
| "double_add x NaN = NaN"
| "double_add PosInf NegInf = NaN"
| "double_add NegInf PosInf = NaN"
| "double_add PosInf y = PosInf"
| "double_add x PosInf = PosInf"
| "double_add NegInf y = NegInf"
| "double_add x NegInf = NegInf"

fun double_neg :: "double \<Rightarrow> double" where
  "double_neg (Fin a) = Fin (- a)"
| "double_neg PosInf = NegInf"
| "double_neg NegInf = PosInf"
| "double_neg NaN = NaN"

definition double_sub :: "double \<Rightarrow> double \<Rightarrow> double" where
  "double_sub x y = double_add x (double_neg y)"


text \<open>The double that a whole-number literal denotes.\<close>

definition double_of_int :: "int \<Rightarrow> double" where
  "double_of_int n = roundDouble (n * 2 ^ 1074)"

section \<open>Records\<close>

datatype TransactionType = income | expense

record Draft =
  title :: string
  amount :: double
  tx_type :: TransactionType
  category :: string
  date :: string

record Transaction = Draft +
  tx_id :: string

section \<open>Transaction store (useTransactionStore)\<close>

record TransactionState =
  transactions :: "Transaction list"
  isLoading :: bool

definition initialState :: TransactionState where
  "initialState = \<lparr>transactions = [], isLoading = False\<rparr>"

text \<open>
  Every action first publishes \<open>isLoading = true\<close>, suspends on a timer, and on resumption
  publishes its result with one call of \<open>set\<close>. \<open>setLoading\<close> is the first call of \<open>set\<close>; the
  \<open>_resolve\<close> function of an action is its second one, applied to the state found at
  resumption; the action itself, run without another one in between, is their composition.
\<close>

definition setLoading :: "TransactionState \<Rightarrow> TransactionState" where
  "setLoading st = st\<lparr>isLoading := True\<rparr>"

definition mockData :: "Transaction list" where
  "mockData =
    [\<lparr>title = ''Salario'', amount = double_of_int 3000, tx_type = income, category = ''Trabajo'',
      date = ''2023-10-01'', tx_id = ''1''\<rparr>,
     \<lparr>title = ''Alquiler'', amount = double_of_int 800, tx_type = expense, category = ''Vivienda'',
      date = ''2023-10-05'', tx_id = ''2''\<rparr>]"

definition getAllTransactions_resolve :: "TransactionState \<Rightarrow> TransactionState" where
  "getAllTransactions_resolve st = st\<lparr>transactions := mockData, isLoading := False\<rparr>"

definition getAllTransactions :: "TransactionState \<Rightarrow> TransactionState" where
  "getAllTransactions st = getAllTransactions_resolve (setLoading st)"

text \<open>
  \<open>String.prototype.substring(start, end)\<close> for non-negative integer arguments: both are
  clamped to the length, and swapped when \<open>start\<close> exceeds \<open>end\<close>.
\<close>

definition substring :: "nat \<Rightarrow> nat \<Rightarrow> string \<Rightarrow> string" where
  "substring start stop s =
    (let a = min start (length s); b = min stop (length s)
     in take (max a b - min a b) (drop (min a b) s))"

text \<open>
  \<open>addTransaction\<close> draws \<open>Math.random()\<close>. The draw is an argument of the model:
  \<open>rnd36\<close> is the value of \<open>Math.random().toString(36)\<close>, that is \<open>''0''\<close> when the draw is
  zero and otherwise \<open>''0.''\<close> followed by the base-36 digits of the draw.
\<close>

definition addTransaction_resolve :: "Draft \<Rightarrow> string \<Rightarrow> TransactionState \<Rightarrow> TransactionState" where
  "addTransaction_resolve newTx rnd36 st =
    (let transaction = \<lparr>title = title newTx, amount = amount newTx, tx_type = tx_type newTx,
                         category = category newTx, date = date newTx,
                         tx_id = substring 2 9 rnd36\<rparr>
     in st\<lparr>transactions := transaction # transactions st, isLoading := False\<rparr>)"

definition addTransaction :: "Draft \<Rightarrow> string \<Rightarrow> TransactionState \<Rightarrow> TransactionState" where
  "addTransaction newTx rnd36 st = addTransaction_resolve newTx rnd36 (setLoading st)"

definition updateTransaction_resolve :: "Transaction \<Rightarrow> TransactionState \<Rightarrow> TransactionState" where
  "updateTransaction_resolve updatedTx st =
    st\<lparr>transactions := map (\<lambda>tx. if tx_id tx = tx_id updatedTx then updatedTx else tx)
                           (transactions st),
       isLoading := False\<rparr>"

definition updateTransaction :: "Transaction \<Rightarrow> TransactionState \<Rightarrow> TransactionState" where
  "updateTransaction updatedTx st = updateTransaction_resolve updatedTx (setLoading st)"

definition deleteTransaction_resolve :: "string \<Rightarrow> TransactionState \<Rightarrow> TransactionState" where
  "deleteTransaction_resolve i st =
    st\<lparr>transactions := filter (\<lambda>tx. tx_id tx \<noteq> i) (transactions st), isLoading := False\<rparr>"

definition deleteTransaction :: "string \<Rightarrow> TransactionState \<Rightarrow> TransactionState" where
  "deleteTransaction i st = deleteTransaction_resolve i (setLoading st)"

text \<open>
  A history of the store: the actions in the order in which they resume. \<open>Create\<close>
  carries the draft and the rendering of its random draw.
\<close>

datatype StoreOp = Create Draft string | Update Transaction | Delete string

fun applyOp :: "StoreOp \<Rightarrow> TransactionState \<Rightarrow> TransactionState" where
  "applyOp (Create newTx rnd36) st = addTransaction newTx rnd36 st"
| "applyOp (Update updatedTx) st = updateTransaction updatedTx st"
| "applyOp (Delete i) st = deleteTransaction i st"

fun run :: "StoreOp list \<Rightarrow> TransactionState \<Rightarrow> TransactionState" where
  "run [] st = st"
| "run (a # as) st = run as (applyOp a st)"

definition ids :: "TransactionState \<Rightarrow> string list" where
  "ids st = map tx_id (transactions st)"

text \<open>The identifiers that the \<open>Create\<close> actions of a history generate.\<close>

fun createdIds :: "StoreOp list \<Rightarrow> string list" where
  "createdIds [] = []"
| "createdIds (Create newTx rnd36 # as) = substring 2 9 rnd36 # createdIds as"
| "createdIds (a # as) = createdIds as"

text \<open>
  \<open>freshDraws as st\<close>: along the history, the identifier generated by each \<open>Create\<close> is
  not the identifier of a record present when it resumes.
\<close>

fun freshDraws :: "StoreOp list \<Rightarrow> TransactionState \<Rightarrow> bool" where
  "freshDraws [] st = True"
| "freshDraws (a # as) st =
    ((case a of Create newTx rnd36 \<Rightarrow> substring 2 9 rnd36 \<notin> set (ids st) | _ \<Rightarrow> True)
     \<and> freshDraws as (applyOp a st))"

section \<open>Dates and sorting (built-ins used by the dashboard)\<close>

text \<open>
  \<open>new Date(s).getTime()\<close> on the date-only form \<open>YYYY-MM-DD\<close>, the form in which the
  store's dates are written: the milliseconds from 1970-01-01 to midnight UTC of that
  day, and \<open>NaN\<close> when a field is not a number or is out of range. A string of any other
  shape is \<open>NaN\<close> here; the engines read further formats, which are not modelled, so
  the results on sorting are stated for dates of this form.
\<close>

definition digit :: "char \<Rightarrow> int option" where
  "digit c = (let n = (of_char c :: nat) in if 48 \<le> n \<and> n \<le> 57 then Some (int n - 48) else None)"

fun number :: "string \<Rightarrow> int option" where
  "number [] = Some 0"
| "number (c # cs) =
    (case (digit c, number cs) of
       (Some d, Some n) \<Rightarrow> Some (d * 10 ^ length cs + n)
     | _ \<Rightarrow> None)"

definition daysInMonth :: "int \<Rightarrow> int \<Rightarrow> int" where
  "daysInMonth y m =
    (if m = 2 then (if y mod 4 = 0 \<and> (y mod 100 \<noteq> 0 \<or> y mod 400 = 0) then 29 else 28)
     else if m = 4 \<or> m = 6 \<or> m = 9 \<or> m = 11 then 30 else 31)"

text \<open>Days from 1970-01-01 to the day \<open>y-m-d\<close> of the proleptic Gregorian calendar.\<close>

definition daysFromEpoch :: "int \<Rightarrow> int \<Rightarrow> int \<Rightarrow> int" where
  "daysFromEpoch y m d =
    (let y' = (if m \<le> 2 then y - 1 else y);
         era = y' div 400;
         yoe = y' - era * 400;
         mp = (m + 9) mod 12;
         doy = (153 * mp + 2) div 5 + d - 1;
         doe = yoe * 365 + yoe div 4 - yoe div 100 + doy
     in era * 146097 + doe - 719468)"

definition getTime :: "string \<Rightarrow> int option" where
  "getTime s =
    (if length s = 10 \<and> s ! 4 = CHR ''-'' \<and> s ! 7 = CHR ''-'' then
       (case (number (take 4 s), number (take 2 (drop 5 s)), number (drop 8 s)) of
          (Some y, Some m, Some d) \<Rightarrow>
            if 1 \<le> m \<and> m \<le> 12 \<and> 1 \<le> d \<and> d \<le> daysInMonth y m
            then Some (daysFromEpoch y m d * 86400000) else None
        | _ \<Rightarrow> None)
     else None)"

text \<open>Subtraction and \<open>>=\<close>, \<open><=\<close> of numbers that may be \<open>NaN\<close>.\<close>

fun minus_num :: "int option \<Rightarrow> int option \<Rightarrow> int option" where
  "minus_num (Some a) (Some b) = Some (a - b)"
| "minus_num _ _ = None"

fun ge_num :: "int option \<Rightarrow> int option \<Rightarrow> bool" where
  "ge_num (Some a) (Some b) = (a \<ge> b)"
| "ge_num _ _ = False"

fun le_num :: "int option \<Rightarrow> int option \<Rightarrow> bool" where
  "le_num (Some a) (Some b) = (a \<le> b)"
| "le_num _ _ = False"

text \<open>
  \<open>Array.prototype.sort(comparefn)\<close>. The language reads a \<open>NaN\<close> returned by the
  comparator as \<open>+0\<close> (\<open>SortCompare\<close>), requires the sort to be stable, and leaves the
  algorithm to the engine: with a consistent comparator every conforming engine returns
  the same array, the one of the stable insertion sort below. With a comparator that is
  not consistent the engine still returns a rearrangement of the array, as \<open>sortBy\<close> does.
\<close>

definition SortCompare :: "('a \<Rightarrow> 'a \<Rightarrow> int option) \<Rightarrow> 'a \<Rightarrow> 'a \<Rightarrow> int" where
  "SortCompare comparefn x y = (case comparefn x y of None \<Rightarrow> 0 | Some v \<Rightarrow> v)"

fun insertBy :: "('a \<Rightarrow> 'a \<Rightarrow> int option) \<Rightarrow> 'a \<Rightarrow> 'a list \<Rightarrow> 'a list" where
  "insertBy comparefn x [] = [x]"
| "insertBy comparefn x (y # ys) =
    (if SortCompare comparefn x y \<le> 0 then x # y # ys else y # insertBy comparefn x ys)"

fun sortBy :: "('a \<Rightarrow> 'a \<Rightarrow> int option) \<Rightarrow> 'a list \<Rightarrow> 'a list" where
  "sortBy comparefn [] = []"
| "sortBy comparefn (x # xs) = insertBy comparefn x (sortBy comparefn xs)"

section \<open>Derivation pipeline (DashboardPage)\<close>

datatype FilterType = all | only TransactionType

datatype SortOrder = asc | desc

definition matchesFilter :: "FilterType \<Rightarrow> Transaction \<Rightarrow> bool" where
  "matchesFilter filterType t =
    (case filterType of all \<Rightarrow> True | only ty \<Rightarrow> tx_type t = ty)"

definition compareDates :: "SortOrder \<Rightarrow> Transaction \<Rightarrow> Transaction \<Rightarrow> int option" where
  "compareDates sortOrder a b =
    (let dateA = getTime (date a); dateB = getTime (date b)
     in if sortOrder = desc then minus_num dateB dateA else minus_num dateA dateB)"

definition processedTransactions :: "Transaction list \<Rightarrow> FilterType \<Rightarrow> SortOrder \<Rightarrow> Transaction list" where
  "processedTransactions txs filterType sortOrder =
    sortBy (compareDates sortOrder) (filter (matchesFilter filterType) txs)"

record Summary =
  totalIncome :: double
  totalExpenses :: double
  netBalance :: double

definition summary :: "Transaction list \<Rightarrow> Summary" where
  "summary txs =
    (let income_total = foldl (\<lambda>acc t. double_add acc (amount t)) (Fin 0)
                          (filter (\<lambda>t. tx_type t = income) txs);
         expenses = foldl (\<lambda>acc t. double_add acc (amount t)) (Fin 0)
                      (filter (\<lambda>t. tx_type t = expense) txs)
     in \<lparr>totalIncome = income_total, totalExpenses = expenses,
         netBalance = double_sub income_total expenses\<rparr>)"


subsection \<open>The same computation on arrays in memory\<close>

text \<open>
  \<open>filter\<close> returns a new array, \<open>sort\<close> sorts the array it is called on in place and
  returns it, \<open>reduce\<close> only reads. A memory is the list of its arrays and a reference is
  an index into it; an allocation appends. The arrays hold the records themselves: no
  step of the derivation assigns to a field of a record.
\<close>

type_synonym ref = nat
type_synonym memory = "Transaction list list"

definition Array_filter :: "(Transaction \<Rightarrow> bool) \<Rightarrow> ref \<Rightarrow> memory \<Rightarrow> ref \<times> memory" where
  "Array_filter p a h = (length h, h @ [filter p (h ! a)])"

definition Array_sort :: "(Transaction \<Rightarrow> Transaction \<Rightarrow> int option) \<Rightarrow> ref \<Rightarrow> memory \<Rightarrow> ref \<times> memory" where
  "Array_sort comparefn a h = (a, h[a := sortBy comparefn (h ! a)])"

definition Array_reduce :: "(double \<Rightarrow> Transaction \<Rightarrow> double) \<Rightarrow> double \<Rightarrow> ref \<Rightarrow> memory \<Rightarrow> double" where
  "Array_reduce f z a h = foldl f z (h ! a)"

definition summary_mem :: "ref \<Rightarrow> memory \<Rightarrow> Summary \<times> memory" where
  "summary_mem txs h =
    (let (r1, h1) = Array_filter (\<lambda>t. tx_type t = income) txs h;
         income_total = Array_reduce (\<lambda>acc t. double_add acc (amount t)) (Fin 0) r1 h1;
         (r2, h2) = Array_filter (\<lambda>t. tx_type t = expense) txs h1;
         expenses = Array_reduce (\<lambda>acc t. double_add acc (amount t)) (Fin 0) r2 h2
     in (\<lparr>totalIncome = income_total, totalExpenses = expenses,
          netBalance = double_sub income_total expenses\<rparr>, h2))"

definition processedTransactions_mem :: "ref \<Rightarrow> FilterType \<Rightarrow> SortOrder \<Rightarrow> memory \<Rightarrow> ref \<times> memory" where
  "processedTransactions_mem txs filterType sortOrder h =
    (let (r, h1) = Array_filter (matchesFilter filterType) txs h
     in Array_sort (compareDates sortOrder) r h1)"

definition derive_mem :: "ref \<Rightarrow> FilterType \<Rightarrow> SortOrder \<Rightarrow> memory \<Rightarrow> (Summary \<times> ref) \<times> memory" where
  "derive_mem txs filterType sortOrder h =
    (let (s, h1) = summary_mem txs h;
         (r, h2) = processedTransactions_mem txs filterType sortOrder h1
     in ((s, r), h2))"

section \<open>Example data\<close>

text \<open>
  The draft of the spec's creation scenario (its amount \<open>4.5\<close> is \<open>9 * 2^-1\<close>), the
  store as \<open>getAllTransactions\<close> leaves it, an edited copy of its second record, a third
  record dated like the first, and three income records of amounts \<open>1e16\<close>, \<open>1\<close>, \<open>1\<close>.
\<close>

definition coffee :: Draft where
  "coffee = \<lparr>title = ''Coffee'', amount = Fin (9 * 2 ^ 1073), tx_type = expense, category = ''Food'',
              date = ''2024-01-01''\<rparr>"

definition loaded :: TransactionState where
  "loaded = \<lparr>transactions = mockData, isLoading = False\<rparr>"

definition rent :: Transaction where
  "rent = \<lparr>title = ''Alquiler'', amount = double_of_int 850, tx_type = expense, category = ''Vivienda'',
            date = ''2023-10-06'', tx_id = ''2''\<rparr>"

definition bonus :: Transaction where
  "bonus = \<lparr>title = ''Bono'', amount = double_of_int 200, tx_type = income, category = ''Trabajo'',
             date = ''2023-10-01'', tx_id = ''3''\<rparr>"







section \<open>Sort keys\<close>

text \<open>
  The time of a record whose date is valid, and the key by which the comparator of the
  dashboard orders such records. Both serve the proofs only.
\<close>

definition timeOf :: "Transaction \<Rightarrow> int" where
  "timeOf t = (case getTime (date t) of None \<Rightarrow> 0 | Some v \<Rightarrow> v)"

definition sortKey :: "SortOrder \<Rightarrow> Transaction \<Rightarrow> int" where
  "sortKey sortOrder t = (if sortOrder = desc then - timeOf t else timeOf t)"

section \<open>Arithmetic of doubles\<close>




















section \<open>Store operations\<close>

lemma transactions_addTransaction:
  "transactions (addTransaction newTx rnd36 st) =
     \<lparr>title = title newTx, amount = amount newTx, tx_type = tx_type newTx,
      category = category newTx, date = date newTx, tx_id = substring 2 9 rnd36\<rparr>
     # transactions st"
  by (simp add: addTransaction_def addTransaction_resolve_def setLoading_def)

lemma transactions_updateTransaction:
  "transactions (updateTransaction r st) =
     map (\<lambda>tx. if tx_id tx = tx_id r then r else tx) (transactions st)"
  by (simp add: updateTransaction_def updateTransaction_resolve_def setLoading_def)

lemma transactions_deleteTransaction:
  "transactions (deleteTransaction i st) = filter (\<lambda>tx. tx_id tx \<noteq> i) (transactions st)"
  by (simp add: deleteTransaction_def deleteTransaction_resolve_def setLoading_def)

lemma ids_addTransaction: "ids (addTransaction newTx rnd36 st) = substring 2 9 rnd36 # ids st"
  by (simp add: ids_def transactions_addTransaction)

lemma ids_updateTransaction: "ids (updateTransaction r st) = ids st"
  by (simp add: ids_def transactions_updateTransaction comp_def cong: map_cong)

lemma ids_deleteTransaction: "ids (deleteTransaction i st) = filter (\<lambda>j. j \<noteq> i) (ids st)"
  by (simp add: ids_def transactions_deleteTransaction filter_map comp_def)

lemma substring_nonempty: "start < length s \<Longrightarrow> start < stop \<Longrightarrow> substring start stop s \<noteq> []"
  by (simp add: substring_def Let_def min_def max_def)

text \<open>
  C10. \<open>addTransaction\<close> prepends: afterwards the new record, carrying the draft's fields,
  is the head of the collection and the records present before follow it in their
  previous order.
\<close>

theorem addTransaction_prepends:
  "transactions (addTransaction newTx rnd36 st) =
     \<lparr>title = title newTx, amount = amount newTx, tx_type = tx_type newTx,
      category = category newTx, date = date newTx, tx_id = substring 2 9 rnd36\<rparr>
     # transactions st"
  by (simp add: addTransaction_def addTransaction_resolve_def setLoading_def)

text \<open>
  C8. \<open>getAllTransactions\<close> replaces the collection by the mock pair and ends with
  \<open>isLoading = false\<close>, whatever the state before; running it twice gives the state that
  running it once gives.
\<close>

theorem getAllTransactions_idempotent:
  "getAllTransactions st = \<lparr>transactions = mockData, isLoading = False\<rparr>
   \<and> getAllTransactions (getAllTransactions st) = getAllTransactions st"
  by (simp add: getAllTransactions_def getAllTransactions_resolve_def setLoading_def)

text \<open>
  C4. \<open>updateTransaction r\<close> keeps the length of the collection; at every position it puts
  \<open>r\<close> where the record there carries the identifier of \<open>r\<close> and leaves the record there
  as it was otherwise; when no record carries that identifier the collection is unchanged.
\<close>

theorem updateTransaction_replaces:
  "length (transactions (updateTransaction r st)) = length (transactions st)
   \<and> (\<forall>n < length (transactions st).
        transactions (updateTransaction r st) ! n =
          (if tx_id (transactions st ! n) = tx_id r then r else transactions st ! n))
   \<and> (tx_id r \<notin> set (ids st) \<longrightarrow> transactions (updateTransaction r st) = transactions st)
   \<and> isLoading (updateTransaction r st) = False"
proof -
  have "tx_id r \<notin> set (map tx_id xs) \<Longrightarrow>
        map (\<lambda>tx. if tx_id tx = tx_id r then r else tx) xs = xs" for xs :: "Transaction list"
    by (induction xs) auto
  from this [of "transactions st"] show ?thesis
    by (simp add: transactions_updateTransaction ids_def)
       (simp add: updateTransaction_def updateTransaction_resolve_def)
qed

theorem updateTransaction_replaces_witness:
  "transactions (updateTransaction rent loaded) = [mockData ! 0, rent]
   \<and> tx_id (rent\<lparr>tx_id := ''7''\<rparr>) \<notin> set (ids loaded)
   \<and> transactions (updateTransaction (rent\<lparr>tx_id := ''7''\<rparr>) loaded) = mockData"
proof -
  have a: "tx_id (rent\<lparr>tx_id := ''7''\<rparr>) \<notin> set (ids loaded)"
    by (simp add: ids_def loaded_def mockData_def rent_def)
  have l: "transactions loaded = mockData" by (simp add: loaded_def)
  have n: "length mockData = 2" by (simp add: mockData_def)
  from updateTransaction_replaces [of rent loaded]
  have "length (transactions (updateTransaction rent loaded)) = 2"
    and "transactions (updateTransaction rent loaded) ! 0 = mockData ! 0"
    and "transactions (updateTransaction rent loaded) ! 1 = rent"
    by (simp_all add: l n) (simp_all add: mockData_def rent_def)
  then have "transactions (updateTransaction rent loaded) = [mockData ! 0, rent]"
    by (simp add: list_eq_iff_nth_eq less_Suc_eq numeral_2_eq_2)
  with a updateTransaction_replaces [of "rent\<lparr>tx_id := ''7''\<rparr>" loaded] l
  show ?thesis by simp
qed

lemma ids_run_subset: "set (ids (run as st)) \<subseteq> set (ids st) \<union> set (createdIds as)"
proof (induction as arbitrary: st)
  case Nil
  show ?case by simp
next
  case (Cons a as)
  show ?case
  proof (cases a)
    case (Create newTx rnd36)
    with Cons.IH [of "addTransaction newTx rnd36 st"] show ?thesis
      by (auto simp: ids_addTransaction)
  next
    case (Update r)
    with Cons.IH [of "updateTransaction r st"] show ?thesis
      by (simp add: ids_updateTransaction)
  next
    case (Delete i)
    with Cons.IH [of "deleteTransaction i st"] show ?thesis
      by (auto simp: ids_deleteTransaction)
  qed
qed

lemma distinct_ids_run:
  "distinct (ids st) \<Longrightarrow> freshDraws as st \<Longrightarrow> distinct (ids (run as st))"
proof (induction as arbitrary: st)
  case Nil
  then show ?case by simp
next
  case (Cons a as)
  have "distinct (ids (applyOp a st))"
  proof (cases a)
    case (Create newTx rnd36)
    with Cons.prems show ?thesis by (simp add: ids_addTransaction)
  next
    case (Update r)
    with Cons.prems show ?thesis by (simp add: ids_updateTransaction)
  next
    case (Delete i)
    with Cons.prems show ?thesis by (simp add: ids_deleteTransaction)
  qed
  with Cons.IH [of "applyOp a st"] Cons.prems show ?case by simp
qed

text \<open>
  C3, as the code has it. After any history of create, update and delete from the empty
  store, every identifier in the collection was generated by a create of the history;
  and the identifiers are pairwise distinct provided that each create generated an
  identifier that no record present at that moment carried. The store draws identifiers
  at random and does not compare them with those present.
\<close>

theorem ids_unique_when_fresh:
  "set (ids (run as initialState)) \<subseteq> set (createdIds as)
   \<and> (freshDraws as initialState \<longrightarrow> distinct (ids (run as initialState)))"
proof -
  have e: "ids initialState = []" by (simp add: ids_def initialState_def)
  from ids_run_subset [of as initialState] e distinct_ids_run [of initialState as]
  show ?thesis by simp
qed

theorem ids_unique_when_fresh_witness:
  "freshDraws [Create coffee ''0.i'', Create coffee ''0.9'', Update rent, Delete ''i''] initialState
   \<and> ids (run [Create coffee ''0.i'', Create coffee ''0.9'', Update rent, Delete ''i'']
             initialState) = [''9'']
   \<and> distinct (ids (run [Create coffee ''0.i'', Create coffee ''0.9'', Update rent, Delete ''i'']
                       initialState))"
  using ids_unique_when_fresh
          [of "[Create coffee ''0.i'', Create coffee ''0.9'', Update rent, Delete ''i'']"]
  by (simp add: transactions_addTransaction transactions_updateTransaction
        transactions_deleteTransaction substring_def ids_def initialState_def rent_def)

text \<open>
  C3 as stated fails: two creates whose draws are both \<open>0.5\<close>, rendered \<open>0.i\<close> in base
  36, leave two records with the identifier \<open>i\<close>.
\<close>

theorem duplicate_ids_counterexample:
  "ids (run [Create coffee ''0.i'', Create coffee ''0.i''] initialState) = [''i'', ''i'']
   \<and> \<not> distinct (ids (run [Create coffee ''0.i'', Create coffee ''0.i''] initialState))"
  by (simp add: transactions_addTransaction substring_def ids_def initialState_def)

text \<open>
  C5, as the code has it. After \<open>deleteTransaction i\<close> no record carries the identifier
  \<open>i\<close>, and the length of the collection has decreased by the number of records that
  carried it: by exactly one when the identifiers of the collection are pairwise distinct
  and \<open>i\<close> is among them, and by zero, the collection being unchanged, when it is not.
\<close>

theorem deleteTransaction_count:
  "i \<notin> set (ids (deleteTransaction i st))
   \<and> length (transactions (deleteTransaction i st))
       + length (filter (\<lambda>tx. tx_id tx = i) (transactions st)) = length (transactions st)
   \<and> (distinct (ids st) \<longrightarrow> i \<in> set (ids st) \<longrightarrow>
        length (transactions (deleteTransaction i st)) + 1 = length (transactions st))
   \<and> (i \<notin> set (ids st) \<longrightarrow> transactions (deleteTransaction i st) = transactions st)"
proof -
  let ?xs = "transactions st"
  have c: "length (filter (\<lambda>tx. tx_id tx \<noteq> i) ?xs) + length (filter (\<lambda>tx. tx_id tx = i) ?xs)
           = length ?xs"
    using sum_length_filter_compl [of "\<lambda>tx. tx_id tx = i" ?xs] by (simp add: add.commute)
  have d: "distinct (map tx_id xs) \<Longrightarrow> i \<in> set (map tx_id xs) \<Longrightarrow>
           length (filter (\<lambda>tx. tx_id tx = i) xs) = 1" for xs :: "Transaction list"
    by (induction xs) (auto simp: filter_empty_conv image_iff)
  have e: "i \<notin> set (map tx_id ?xs) \<Longrightarrow> filter (\<lambda>tx. tx_id tx \<noteq> i) ?xs = ?xs"
    by (auto simp: filter_id_conv)
  from c d [of ?xs] e show ?thesis
    by (auto simp: transactions_deleteTransaction ids_def)
qed

theorem deleteTransaction_count_witness:
  "distinct (ids loaded) \<and> ''2'' \<in> set (ids loaded)
   \<and> length (transactions (deleteTransaction ''2'' loaded)) + 1 = length (transactions loaded)
   \<and> ''9'' \<notin> set (ids loaded)
   \<and> transactions (deleteTransaction ''9'' loaded) = transactions loaded"
proof -
  have "distinct (ids loaded)" and "''2'' \<in> set (ids loaded)" and "''9'' \<notin> set (ids loaded)"
    by (simp_all add: ids_def loaded_def mockData_def)
  with deleteTransaction_count [of "''2''" loaded] deleteTransaction_count [of "''9''" loaded]
  show ?thesis by simp
qed

text \<open>
  C5 as stated fails on a collection in which two records carry the same identifier,
  which two creates with the same draw produce: the delete removes both.
\<close>

theorem deleteTransaction_count_counterexample:
  "length (transactions (run [Create coffee ''0.i'', Create coffee ''0.i''] initialState)) = 2
   \<and> ''i'' \<in> set (ids (run [Create coffee ''0.i'', Create coffee ''0.i''] initialState))
   \<and> length (transactions (deleteTransaction ''i''
        (run [Create coffee ''0.i'', Create coffee ''0.i''] initialState))) = 0"
  by (simp add: transactions_addTransaction transactions_deleteTransaction substring_def
        ids_def initialState_def)

text \<open>
  C6, as the code has it. \<open>addTransaction\<close> lengthens the collection by exactly one; the
  identifier of the new record, the head, is made of the characters 2 to 8 of the base-36
  rendering of the random draw; it is non-empty when that rendering has more than two
  characters, and it differs from every identifier present when those characters are not
  the identifier of a record present.
\<close>

theorem addTransaction_length_id:
  "length (transactions (addTransaction newTx rnd36 st)) = length (transactions st) + 1
   \<and> tx_id (hd (transactions (addTransaction newTx rnd36 st))) = substring 2 9 rnd36
   \<and> (2 < length rnd36 \<longrightarrow> tx_id (hd (transactions (addTransaction newTx rnd36 st))) \<noteq> [])
   \<and> (substring 2 9 rnd36 \<notin> set (ids st) \<longrightarrow>
        (\<forall>t\<in>set (transactions st).
           tx_id t \<noteq> tx_id (hd (transactions (addTransaction newTx rnd36 st)))))"
  using substring_nonempty [of 2 rnd36 9]
  by (auto simp: transactions_addTransaction ids_def image_iff)

theorem addTransaction_length_id_witness:
  "length (transactions (addTransaction coffee ''0.i'' initialState)) = 1
   \<and> 2 < length ''0.i''
   \<and> tx_id (hd (transactions (addTransaction coffee ''0.i'' initialState))) = ''i''
   \<and> substring 2 9 ''0.9'' \<notin> set (ids (addTransaction coffee ''0.i'' initialState))
   \<and> list_all (\<lambda>t. tx_id t \<noteq> tx_id (hd (transactions
          (addTransaction coffee ''0.9'' (addTransaction coffee ''0.i'' initialState)))))
        (transactions (addTransaction coffee ''0.i'' initialState))"
proof -
  have a: "substring 2 9 ''0.i'' = ''i''" and b: "substring 2 9 ''0.9'' = ''9''"
    by (simp_all add: substring_def)
  have c: "transactions initialState = []" by (simp add: initialState_def)
  have d: "substring 2 9 ''0.9'' \<notin> set (ids (addTransaction coffee ''0.i'' initialState))"
    by (simp add: transactions_addTransaction a b ids_def c)
  from addTransaction_length_id [of coffee "''0.i''" initialState]
       addTransaction_length_id [of coffee "''0.9''" "addTransaction coffee ''0.i'' initialState"]
       a c d
  show ?thesis by (auto simp: list_all_iff)
qed

text \<open>
  C6 as stated fails: the draw \<open>0\<close> is rendered \<open>0\<close> and gives the empty identifier, on
  the empty collection too; and a draw rendered like an earlier one gives the identifier
  of a record present.
\<close>

theorem addTransaction_id_counterexample:
  "tx_id (hd (transactions (addTransaction coffee ''0'' initialState))) = []
   \<and> tx_id (hd (transactions (addTransaction coffee ''0.i''
                                 (addTransaction coffee ''0.i'' initialState))))
       \<in> set (ids (addTransaction coffee ''0.i'' initialState))"
  by (simp add: transactions_addTransaction ids_def substring_def)

section \<open>Derivation pipeline\<close>

lemma mset_insertBy: "mset (insertBy c x xs) = add_mset x (mset xs)"
  by (induction xs) simp_all

lemma mset_sortBy: "mset (sortBy c xs) = mset xs"
  by (induction xs) (simp_all add: mset_insertBy)

lemma set_sortBy: "set (sortBy c xs) = set xs"
  using mset_sortBy [of c xs] by (metis set_mset_mset)

lemma length_sortBy: "length (sortBy c xs) = length xs"
  using mset_sortBy [of c xs] by (metis size_mset)

lemma matchesFilter_only: "matchesFilter (only ty) = (\<lambda>t. tx_type t = ty)"
  by (rule ext) (simp add: matchesFilter_def)

lemma matchesFilter_all: "matchesFilter all = (\<lambda>t. True)"
  by (rule ext) (simp add: matchesFilter_def)







text \<open>
  C7. With the filter set to a type, every record of the display list has that type; with
  the filter \<open>all\<close> the display list holds exactly the records of the collection; and the
  lengths of the display lists for \<open>income\<close> and for \<open>expense\<close> add up to the length of the
  one for \<open>all\<close>.
\<close>

theorem processedTransactions_filter:
  "(\<forall>t\<in>set (processedTransactions txs (only ty) sortOrder). tx_type t = ty)
   \<and> mset (processedTransactions txs all sortOrder) = mset txs
   \<and> length (processedTransactions txs (only income) sortOrder)
       + length (processedTransactions txs (only expense) sortOrder)
     = length (processedTransactions txs all sortOrder)"
proof -
  have "length (filter (\<lambda>t. tx_type t = income) txs) + length (filter (\<lambda>t. tx_type t = expense) txs)
        = length txs"
  proof (induction txs)
    case Nil
    show ?case by simp
  next
    case (Cons t txs)
    then show ?case by (cases "tx_type t") simp_all
  qed
  then show ?thesis
    by (simp add: processedTransactions_def matchesFilter_only matchesFilter_all set_sortBy
          mset_sortBy length_sortBy)
qed

theorem processedTransactions_filter_witness:
  "map tx_id (processedTransactions mockData (only income) desc) = [''1'']
   \<and> map tx_id (processedTransactions mockData (only expense) desc) = [''2'']
   \<and> list_all (\<lambda>t. tx_type t = income) (processedTransactions mockData (only income) desc)
   \<and> length (processedTransactions mockData all desc) = 2"
proof -
  have "map tx_id (processedTransactions mockData (only income) desc) = [''1'']"
    and "map tx_id (processedTransactions mockData (only expense) desc) = [''2'']"
    by (simp_all add: processedTransactions_def mockData_def matchesFilter_def)
  moreover from this have "length (processedTransactions mockData (only income) desc) = 1"
    and "length (processedTransactions mockData (only expense) desc) = 1"
    by (metis length_map list.size(3) list.size(4) add_0 One_nat_def)+
  ultimately show ?thesis
    using processedTransactions_filter [of mockData income desc] by (simp add: list_all_iff)
qed

lemma SortCompare_compareDates:
  assumes "getTime (date x) \<noteq> None" "getTime (date y) \<noteq> None"
  shows "(SortCompare (compareDates so) x y \<le> 0) = (sortKey so x \<le> sortKey so y)"
  using assms by (auto simp: SortCompare_def compareDates_def sortKey_def timeOf_def Let_def)

lemma insertBy_insort_key:
  assumes "getTime (date x) \<noteq> None" "\<forall>t\<in>set ys. getTime (date t) \<noteq> None"
  shows "insertBy (compareDates so) x ys = insort_key (sortKey so) x ys"
  using assms by (induction ys) (simp_all add: SortCompare_compareDates)

lemma sortBy_sort_key:
  assumes "\<forall>t\<in>set xs. getTime (date t) \<noteq> None"
  shows "sortBy (compareDates so) xs = sort_key (sortKey so) xs"
  using assms
proof (induction xs)
  case Nil
  show ?case by simp
next
  case (Cons x xs)
  then have "\<forall>t\<in>set (sort_key (sortKey so) xs). getTime (date t) \<noteq> None" by simp
  with Cons show ?case by (simp add: insertBy_insort_key)
qed

text \<open>
  C2. The dates of the collection being calendar dates in the form \<open>YYYY-MM-DD\<close>, as the
  data model has them (it is enough that those of the records passing the filter are):
  with \<open>desc\<close> the time of each record of the display list is at least that of the next
  one, with \<open>asc\<close> at most that of the next one, and the records of one date (of one
  instant) stand in the display list in the order in which they stand in the filtered
  collection.
\<close>

theorem processedTransactions_sorted:
  assumes valid: "\<forall>t\<in>set txs. matchesFilter filterType t \<longrightarrow> getTime (date t) \<noteq> None"
  shows "(\<forall>n. Suc n < length (processedTransactions txs filterType desc) \<longrightarrow>
            ge_num (getTime (date (processedTransactions txs filterType desc ! n)))
                   (getTime (date (processedTransactions txs filterType desc ! Suc n))))
       \<and> (\<forall>n. Suc n < length (processedTransactions txs filterType asc) \<longrightarrow>
            le_num (getTime (date (processedTransactions txs filterType asc ! n)))
                   (getTime (date (processedTransactions txs filterType asc ! Suc n))))
       \<and> (\<forall>k. filter (\<lambda>t. getTime (date t) = k) (processedTransactions txs filterType sortOrder)
              = filter (\<lambda>t. getTime (date t) = k) (filter (matchesFilter filterType) txs))
       \<and> (\<forall>d. filter (\<lambda>t. date t = d) (processedTransactions txs filterType sortOrder)
              = filter (\<lambda>t. date t = d) (filter (matchesFilter filterType) txs))"
proof -
  let ?xs = "filter (matchesFilter filterType) txs"
  have v: "\<forall>t\<in>set ?xs. getTime (date t) \<noteq> None" using valid by simp
  have p: "processedTransactions txs filterType so = sort_key (sortKey so) ?xs" for so
    using v by (simp add: processedTransactions_def sortBy_sort_key)
  have ord: "sortKey so (sort_key (sortKey so) ?xs ! n) \<le> sortKey so (sort_key (sortKey so) ?xs ! Suc n)"
    if "Suc n < length (sort_key (sortKey so) ?xs)" for so n
  proof -
    have "sorted (map (sortKey so) (sort_key (sortKey so) ?xs))" by (rule sorted_sort_key)
    then have "map (sortKey so) (sort_key (sortKey so) ?xs) ! n
               \<le> map (sortKey so) (sort_key (sortKey so) ?xs) ! Suc n"
      using that by (simp add: sorted_iff_nth_Suc)
    with that show ?thesis by simp
  qed
  have mem: "getTime (date (sort_key (sortKey so) ?xs ! n)) \<noteq> None"
    if "n < length (sort_key (sortKey so) ?xs)" for so n
  proof -
    have "sort_key (sortKey so) ?xs ! n \<in> set (sort_key (sortKey so) ?xs)"
      using that by (rule nth_mem)
    with v show ?thesis by simp
  qed
  have d: "ge_num (getTime (date (sort_key (sortKey desc) ?xs ! n)))
                  (getTime (date (sort_key (sortKey desc) ?xs ! Suc n)))"
    if "Suc n < length (sort_key (sortKey desc) ?xs)" for n
    using ord [OF that] mem [of n desc] mem [of "Suc n" desc] that
    by (auto simp: sortKey_def timeOf_def)
  have a: "le_num (getTime (date (sort_key (sortKey asc) ?xs ! n)))
                  (getTime (date (sort_key (sortKey asc) ?xs ! Suc n)))"
    if "Suc n < length (sort_key (sortKey asc) ?xs)" for n
    using ord [OF that] mem [of n asc] mem [of "Suc n" asc] that
    by (auto simp: sortKey_def timeOf_def)
  have k: "filter (\<lambda>t. getTime (date t) = k) (sort_key (sortKey sortOrder) ?xs)
           = filter (\<lambda>t. getTime (date t) = k) ?xs" for k
  proof (cases k)
    case None
    have "filter (\<lambda>t. getTime (date t) = None) ys = []"
      if "\<forall>t\<in>set ys. getTime (date t) \<noteq> None" for ys :: "Transaction list"
      using that by (simp add: filter_empty_conv)
    from this [of ?xs] this [of "sort_key (sortKey sortOrder) ?xs"] v None show ?thesis by simp
  next
    case (Some m)
    let ?c = "if sortOrder = desc then - m else m"
    have e: "filter (\<lambda>t. getTime (date t) = Some m) ys = filter (\<lambda>t. sortKey sortOrder t = ?c) ys"
      if "\<forall>t\<in>set ys. getTime (date t) \<noteq> None" for ys :: "Transaction list"
      using that by (intro filter_cong refl) (auto simp: sortKey_def timeOf_def)
    from e [of ?xs] e [of "sort_key (sortKey sortOrder) ?xs"] v Some
      sort_key_stable [of "sortKey sortOrder" ?c ?xs]
    show ?thesis by simp
  qed
  have s: "filter (\<lambda>t. date t = d) (sort_key (sortKey sortOrder) ?xs)
           = filter (\<lambda>t. date t = d) ?xs" for d
  proof -
    have "filter (\<lambda>t. date t = d) ys = filter (\<lambda>t. date t = d) (filter (\<lambda>t. getTime (date t) = getTime d) ys)"
      for ys :: "Transaction list"
      by (induction ys) auto
    from this [of ?xs] this [of "sort_key (sortKey sortOrder) ?xs"] k [of "getTime d"]
    show ?thesis by simp
  qed
  from d a k s show ?thesis unfolding p by blast
qed

theorem processedTransactions_sorted_witness:
  "list_all (\<lambda>t. getTime (date t) \<noteq> None) (mockData @ [bonus])
   \<and> map tx_id (processedTransactions (mockData @ [bonus]) all desc) = [''2'', ''1'', ''3'']
   \<and> map tx_id (processedTransactions (mockData @ [bonus]) all asc) = [''1'', ''3'', ''2'']
   \<and> ge_num (getTime (date (processedTransactions (mockData @ [bonus]) all desc ! 0)))
             (getTime (date (processedTransactions (mockData @ [bonus]) all desc ! 1)))
   \<and> le_num (getTime (date (processedTransactions (mockData @ [bonus]) all asc ! 1)))
             (getTime (date (processedTransactions (mockData @ [bonus]) all asc ! 2)))
   \<and> map tx_id (filter (\<lambda>t. date t = ''2023-10-01'')
                  (processedTransactions (mockData @ [bonus]) all desc)) = [''1'', ''3'']"
proof -
  have v: "\<forall>t\<in>set (mockData @ [bonus]). matchesFilter all t \<longrightarrow> getTime (date t) \<noteq> None"
    by (simp add: processedTransactions_def mockData_def bonus_def rent_def matchesFilter_def
        compareDates_def SortCompare_def getTime_def digit_def daysInMonth_def daysFromEpoch_def)
  have l: "list_all (\<lambda>t. getTime (date t) \<noteq> None) (mockData @ [bonus])"
    by (simp add: processedTransactions_def mockData_def bonus_def rent_def matchesFilter_def
        compareDates_def SortCompare_def getTime_def digit_def daysInMonth_def daysFromEpoch_def)
  have d: "map tx_id (processedTransactions (mockData @ [bonus]) all desc) = [''2'', ''1'', ''3'']"
    by (simp add: processedTransactions_def mockData_def bonus_def rent_def matchesFilter_def
        compareDates_def SortCompare_def getTime_def digit_def daysInMonth_def daysFromEpoch_def)
  have a: "map tx_id (processedTransactions (mockData @ [bonus]) all asc) = [''1'', ''3'', ''2'']"
    by (simp add: processedTransactions_def mockData_def bonus_def rent_def matchesFilter_def
        compareDates_def SortCompare_def getTime_def digit_def daysInMonth_def daysFromEpoch_def)
  have n: "length (processedTransactions (mockData @ [bonus]) all so) = 3" for so
    by (simp add: processedTransactions_def matchesFilter_all length_sortBy mockData_def)
  have f: "map tx_id (filter (\<lambda>t. date t = ''2023-10-01'') (filter (matchesFilter all) (mockData @ [bonus])))
           = [''1'', ''3'']"
    by (simp add: mockData_def bonus_def matchesFilter_def)
  note T = processedTransactions_sorted [OF v, of desc]
  from T have "Suc 0 < length (processedTransactions (mockData @ [bonus]) all desc) \<longrightarrow>
      ge_num (getTime (date (processedTransactions (mockData @ [bonus]) all desc ! 0)))
             (getTime (date (processedTransactions (mockData @ [bonus]) all desc ! Suc 0)))"
    by blast
  with n have g: "ge_num (getTime (date (processedTransactions (mockData @ [bonus]) all desc ! 0)))
             (getTime (date (processedTransactions (mockData @ [bonus]) all desc ! 1)))"
    by simp
  from T have "Suc (Suc 0) < length (processedTransactions (mockData @ [bonus]) all asc) \<longrightarrow>
      le_num (getTime (date (processedTransactions (mockData @ [bonus]) all asc ! Suc 0)))
             (getTime (date (processedTransactions (mockData @ [bonus]) all asc ! Suc (Suc 0))))"
    by blast
  with n have h: "le_num (getTime (date (processedTransactions (mockData @ [bonus]) all asc ! 1)))
             (getTime (date (processedTransactions (mockData @ [bonus]) all asc ! 2)))"
    by (simp add: numeral_2_eq_2)
  from T have "filter (\<lambda>t. date t = ''2023-10-01'')
                 (processedTransactions (mockData @ [bonus]) all desc)
               = filter (\<lambda>t. date t = ''2023-10-01'')
                   (filter (matchesFilter all) (mockData @ [bonus]))"
    by blast
  with f have s: "map tx_id (filter (\<lambda>t. date t = ''2023-10-01'')
                  (processedTransactions (mockData @ [bonus]) all desc)) = [''1'', ''3'']"
    by simp
  from l d a g h s show ?thesis by blast
qed

subsection \<open>Memory\<close>

lemma summary_mem_eq:
  assumes "txs < length h"
  shows "summary_mem txs h =
           (summary (h ! txs),
            h @ [filter (\<lambda>t. tx_type t = income) (h ! txs),
                 filter (\<lambda>t. tx_type t = expense) (h ! txs)])"
  using assms
  by (simp add: summary_mem_def summary_def Array_filter_def Array_reduce_def Let_def nth_append)

lemma processedTransactions_mem_eq:
  assumes "txs < length h"
  shows "processedTransactions_mem txs filterType sortOrder h =
           (length h, h @ [processedTransactions (h ! txs) filterType sortOrder])"
  using assms
  by (simp add: processedTransactions_mem_def processedTransactions_def Array_filter_def
        Array_sort_def)

lemma derive_mem_eq:
  assumes "txs < length h"
  shows "derive_mem txs filterType sortOrder h =
           ((summary (h ! txs), length h + 2),
            h @ [filter (\<lambda>t. tx_type t = income) (h ! txs),
                 filter (\<lambda>t. tx_type t = expense) (h ! txs),
                 processedTransactions (h ! txs) filterType sortOrder])"
  using assms
  by (simp add: derive_mem_def summary_mem_eq processedTransactions_mem_eq nth_append)

text \<open>
  C9. Deriving the summary and the display list from the array that the store holds
  (a valid reference \<open>txs\<close>) leaves that array, and every array that existed before, as
  it was: the same records in the same order. The display list is a new array, and it is
  that new array which \<open>sort\<close> reorders.
\<close>

theorem derive_mem_frame:
  assumes "txs < length h"
  shows "snd (derive_mem txs filterType sortOrder h) ! txs = h ! txs
       \<and> (\<forall>b < length h. snd (derive_mem txs filterType sortOrder h) ! b = h ! b)
       \<and> fst (fst (derive_mem txs filterType sortOrder h)) = summary (h ! txs)
       \<and> snd (fst (derive_mem txs filterType sortOrder h)) \<noteq> txs
       \<and> snd (derive_mem txs filterType sortOrder h) ! snd (fst (derive_mem txs filterType sortOrder h))
           = processedTransactions (h ! txs) filterType sortOrder"
  using assms by (simp add: derive_mem_eq nth_append)

theorem derive_mem_frame_witness:
  "(0::nat) < length [mockData]
   \<and> snd (derive_mem 0 all desc [mockData]) ! 0 = mockData
   \<and> map tx_id (snd (derive_mem 0 all desc [mockData]) ! snd (fst (derive_mem 0 all desc [mockData])))
       = [''2'', ''1'']
   \<and> map tx_id (snd (derive_mem 0 all desc [mockData]) ! 0) = [''1'', ''2'']"
proof -
  have l: "(0::nat) < length [mockData]" by simp
  have p: "map tx_id (processedTransactions mockData all desc) = [''2'', ''1'']"
    by (simp add: processedTransactions_def mockData_def matchesFilter_def compareDates_def
          SortCompare_def getTime_def digit_def daysInMonth_def daysFromEpoch_def)
  have m: "map tx_id mockData = [''1'', ''2'']" by (simp add: mockData_def)
  from derive_mem_frame [OF l, of all desc] p m show ?thesis by simp
qed

end
